theory Spec2Isabelle
  imports Complex_Main
begin

section \<open>Numbers and strings of the host language\<close>

text \<open>
  The TypeScript sources compute with \<^verbatim>\<open>number\<close>. Times in seconds, scale
  fractions and durations are modelled as exact rationals (\<^typ>\<open>rat\<close>): every finite
  double is a rational, and the arithmetic below is taken without rounding error.
  Whole-number results (\<^verbatim>\<open>Math.floor\<close>, \<^verbatim>\<open>Math.round\<close>, array lengths) are
  \<^typ>\<open>int\<close> or \<^typ>\<open>nat\<close>.
\<close>

definition Math_floor :: "rat \<Rightarrow> int" where
  "Math_floor x = \<lfloor>x\<rfloor>"

definition Math_round :: "rat \<Rightarrow> int" where
  \<comment> \<open>\<^verbatim>\<open>Math.round\<close>: the nearest integer, a tie going to the larger one.\<close>
  "Math_round x = \<lfloor>x + 1 / 2\<rfloor>"

definition js_trunc :: "rat \<Rightarrow> int" where
  "js_trunc q = (if 0 \<le> q then \<lfloor>q\<rfloor> else \<lceil>q\<rceil>)"

definition js_rem :: "rat \<Rightarrow> rat \<Rightarrow> rat" where
  \<comment> \<open>The \<^verbatim>\<open>%\<close> operator: the remainder takes the sign of the dividend.\<close>
  "js_rem a b = a - b * of_int (js_trunc (a / b))"

definition digit_char :: "nat \<Rightarrow> char" where
  "digit_char d = char_of (48 + d)"

fun nat_to_string :: "nat \<Rightarrow> string" where
  "nat_to_string n =
     (if n < 10 then [digit_char n] else nat_to_string (n div 10) @ [digit_char (n mod 10)])"

declare nat_to_string.simps [simp del]

definition int_to_string :: "int \<Rightarrow> string" where
  \<comment> \<open>\<^verbatim>\<open>toString()\<close> and template interpolation of a whole number.\<close>
  "int_to_string i = (if i < 0 then CHR ''-'' # nat_to_string (nat (- i)) else nat_to_string (nat i))"

definition padStart :: "nat \<Rightarrow> char \<Rightarrow> string \<Rightarrow> string" where
  \<comment> \<open>\<^verbatim>\<open>s.padStart(n, c)\<close> for a one-character filler.\<close>
  "padStart n c s = replicate (n - length s) c @ s"

definition backslash :: char where
  "backslash = char_of (92 :: nat)"

definition newline :: char where
  "newline = char_of (10 :: nat)"

fun join :: "string \<Rightarrow> string list \<Rightarrow> string" where
  \<comment> \<open>\<^verbatim>\<open>parts.join(sep)\<close>\<close>
  "join sep [] = []"
| "join sep [p] = p"
| "join sep (p # q # ps) = p @ sep @ join sep (q # ps)"

section \<open>The subtitle generator (\<^verbatim>\<open>src/utils/ass-generator.ts\<close>)\<close>

record WordTimestamp =
  word :: string
  start :: rat
  finish :: rat  \<comment> \<open>the field \<^verbatim>\<open>end\<close> of the source\<close>

record Segment =
  startTime :: rat
  endTime :: rat
  words :: "WordTimestamp list"

subsection \<open>\<^verbatim>\<open>segmentWords\<close>\<close>

text \<open>
  The callback of \<^verbatim>\<open>timestamps.forEach((timestamp, index) => ...)\<close> is one step on
  the loop state: the list of closed segments, the words of the current segment and
  \<^verbatim>\<open>segmentStartTime\<close>. The loop runs the step for every index in order.
\<close>

definition closeSegment :: "rat \<Rightarrow> WordTimestamp list \<Rightarrow> Segment" where
  "closeSegment segmentStartTime currentSegment =
     \<lparr>startTime = segmentStartTime, endTime = finish (last currentSegment),
      words = currentSegment\<rparr>"

definition segmentStep ::
  "WordTimestamp list \<Rightarrow> int \<Rightarrow> Segment list \<times> WordTimestamp list \<times> rat \<Rightarrow> nat
     \<Rightarrow> Segment list \<times> WordTimestamp list \<times> rat"
where
  "segmentStep timestamps maxWordsPerSegment state index =
     (let (segments, currentSegment, segmentStartTime) = state;
          timestamp = timestamps ! index;
          segmentStartTime' = (if currentSegment = [] then start timestamp else segmentStartTime);
          currentSegment' = currentSegment @ [timestamp];
          isLastWord = (int index = int (length timestamps) - 1);
          segmentFull = (maxWordsPerSegment \<le> int (length currentSegment'));
          nextWordHasGap =
            (\<not> isLastWord \<and> start (timestamps ! (index + 1)) - finish timestamp > 3 / 10)
      in if isLastWord \<or> segmentFull \<or> nextWordHasGap
         then (segments @ [closeSegment segmentStartTime' currentSegment'], [], segmentStartTime')
         else (segments, currentSegment', segmentStartTime'))"

definition segmentWords :: "WordTimestamp list \<Rightarrow> int \<Rightarrow> Segment list" where
  "segmentWords timestamps maxWordsPerSegment =
     fst (foldl (segmentStep timestamps maxWordsPerSegment) ([], [], 0) [0..<length timestamps])"

text \<open>
  The same loop as a recursion over the words still to be visited: the word after the
  current one is the head of the remaining list, and the current word is the last one
  exactly when nothing remains. \<open>segmentWords_loop\<close> below shows that the two agree;
  the proofs use this form.
\<close>

fun segmentLoop ::
  "int \<Rightarrow> WordTimestamp list \<Rightarrow> Segment list \<Rightarrow> WordTimestamp list \<Rightarrow> rat \<Rightarrow> Segment list"
where
  "segmentLoop maxWordsPerSegment [] segments currentSegment segmentStartTime = segments"
| "segmentLoop maxWordsPerSegment (timestamp # rest) segments currentSegment segmentStartTime =
     (let segmentStartTime' = (if currentSegment = [] then start timestamp else segmentStartTime);
          currentSegment' = currentSegment @ [timestamp];
          isLastWord = (rest = []);
          segmentFull = (maxWordsPerSegment \<le> int (length currentSegment'));
          nextWordHasGap = (case rest of [] \<Rightarrow> False
                            | next # _ \<Rightarrow> start next - finish timestamp > 3 / 10)
      in if isLastWord \<or> segmentFull \<or> nextWordHasGap
         then segmentLoop maxWordsPerSegment rest
                (segments @ [closeSegment segmentStartTime' currentSegment']) [] segmentStartTime'
         else segmentLoop maxWordsPerSegment rest segments currentSegment' segmentStartTime')"

subsection \<open>\<^verbatim>\<open>formatASSTime\<close>\<close>

definition formatASSTime :: "rat \<Rightarrow> string" where
  "formatASSTime seconds =
     (let hours = Math_floor (seconds / 3600);
          mins = Math_floor (js_rem seconds 3600 / 60);
          secs = Math_floor (js_rem seconds 60);
          centiseconds = Math_floor (js_rem seconds 1 * 100)
      in int_to_string hours @ '':'' @ padStart 2 CHR ''0'' (int_to_string mins) @ '':''
         @ padStart 2 CHR ''0'' (int_to_string secs) @ ''.''
         @ padStart 2 CHR ''0'' (int_to_string centiseconds))"

subsection \<open>\<^verbatim>\<open>colorToASS\<close>\<close>

fun remove_first :: "char \<Rightarrow> string \<Rightarrow> string" where
  \<comment> \<open>\<^verbatim>\<open>s.replace(c, '')\<close> with a string pattern: only the first occurrence goes.\<close>
  "remove_first c [] = []"
| "remove_first c (x # xs) = (if x = c then xs else x # remove_first c xs)"

definition substring :: "nat \<Rightarrow> nat \<Rightarrow> string \<Rightarrow> string" where
  \<comment> \<open>\<^verbatim>\<open>s.substring(a, b)\<close> for \<open>a \<le> b\<close>\<close>
  "substring a b s = take (b - a) (drop a s)"

definition upper_char :: "char \<Rightarrow> char" where
  \<comment> \<open>\<^verbatim>\<open>toUpperCase\<close> on the ASCII letters; other characters are kept.\<close>
  "upper_char c =
     (let n = of_char c :: nat in if 97 \<le> n \<and> n \<le> 122 then char_of (n - 32) else c)"

definition colorToASS :: "string \<Rightarrow> string" where
  "colorToASS hexColor =
     (let hex = remove_first CHR ''#'' hexColor;
          r = substring 0 2 hex;
          g = substring 2 4 hex;
          b = substring 4 6 hex
      in map upper_char (''&H00'' @ b @ g @ r))"

subsection \<open>\<^verbatim>\<open>generateASS\<close>\<close>

record ASSGeneratorOptions =
  resolution :: "rat \<times> rat"        \<comment> \<open>the two numbers of \<^verbatim>\<open>resolution.split('x').map(Number)\<close>\<close>
  fontFamily :: "string option"
  fontSize :: "rat option"
  primaryColor :: "string option"
  highlightColor :: "string option"
  outlineColor :: "string option"
  marginBottom :: "rat option"
  wordsPerSegment :: "int option"

definition or_default :: "string option \<Rightarrow> string \<Rightarrow> string" where
  \<comment> \<open>\<^verbatim>\<open>value || fallback\<close> on an optional string: absent and empty are both falsy.\<close>
  "or_default v d = (case v of None \<Rightarrow> d | Some s \<Rightarrow> if s = [] then d else s)"

definition or_default_int :: "int option \<Rightarrow> int \<Rightarrow> int" where
  \<comment> \<open>\<^verbatim>\<open>value || fallback\<close> on an optional whole number: absent and zero are both falsy.\<close>
  "or_default_int v d = (case v of None \<Rightarrow> d | Some n \<Rightarrow> if n = 0 then d else n)"

definition or_default_num :: "rat option \<Rightarrow> rat \<Rightarrow> rat" where
  \<comment> \<open>\<^verbatim>\<open>value || fallback\<close> on an optional number: absent and zero are both falsy.
      A number that could not be parsed (\<^verbatim>\<open>NaN\<close>) is the absent case.\<close>
  "or_default_num v d = (case v of None \<Rightarrow> d | Some x \<Rightarrow> if x = 0 then d else x)"

definition text_lines :: "string list \<Rightarrow> string" where
  \<comment> \<open>Lines of a template literal, each closed by a line feed.\<close>
  "text_lines ls = concat (map (\<lambda>l. l @ [newline]) ls)"

definition assHeader :: "(rat \<Rightarrow> string) \<Rightarrow> ASSGeneratorOptions \<Rightarrow> string" where
  \<comment> \<open>The template literal that opens the document. \<open>show_num\<close> is the default
      formatting of an interpolated number.\<close>
  "assHeader show_num options =
     text_lines
       [''[Script Info]'',
        ''Title: EasyBrainrot Captions'',
        ''ScriptType: v4.00+'',
        ''WrapStyle: 0'',
        ''PlayResX: '' @ show_num (fst (resolution options)),
        ''PlayResY: '' @ show_num (snd (resolution options)),
        ''ScaledBorderAndShadow: yes'',
        [],
        ''[V4+ Styles]'',
        ''Format: Name, Fontname, Fontsize, PrimaryColour, SecondaryColour, OutlineColour, BackColour, Bold, Italic, Underline, StrikeOut, ScaleX, ScaleY, Spacing, Angle, BorderStyle, Outline, Shadow, Alignment, MarginL, MarginR, MarginV, Encoding'',
        ''Style: Default,'' @ or_default (fontFamily options) ''DejaVu Sans'' @ '',''
          @ show_num (or_default_num (fontSize options) 80) @ '',''
          @ colorToASS (or_default (primaryColor options) ''#FFFFFF'') @ '',''
          @ colorToASS (or_default (highlightColor options) ''#FFD700'') @ '',''
          @ colorToASS (or_default (outlineColor options) ''#000000'')
          @ '',&H80000000,-1,0,0,0,100,100,0,0,1,4,2,2,10,10,''
          @ show_num (or_default_num (marginBottom options) 300) @ '',1'',
        [],
        ''[Events]'',
        ''Format: Layer, Start, End, Style, Name, MarginL, MarginR, MarginV, Effect, Text'']"

definition highlightStartMs :: "WordTimestamp \<Rightarrow> int" where
  "highlightStartMs wordInfo = Math_round (start wordInfo * 1000)"

definition highlightEndMs :: "WordTimestamp \<Rightarrow> int" where
  "highlightEndMs wordInfo = Math_round (finish wordInfo * 1000)"

definition animationTag :: "string \<Rightarrow> string \<Rightarrow> WordTimestamp \<Rightarrow> string" where
  \<comment> \<open>The body of the \<^verbatim>\<open>map\<close> callback up to the word itself. The callback receives
      the word only: neither its index nor the segment enters the computation.\<close>
  "animationTag primary highlight wordInfo =
     ''{'' @ [backslash] @ ''1c'' @ primary @ ''&'' @ [backslash] @ ''t(''
     @ int_to_string (highlightStartMs wordInfo) @ '','' @ int_to_string (highlightStartMs wordInfo)
     @ '','' @ [backslash] @ ''1c'' @ highlight @ ''&)'' @ [backslash] @ ''t(''
     @ int_to_string (highlightEndMs wordInfo) @ '','' @ int_to_string (highlightEndMs wordInfo)
     @ '','' @ [backslash] @ ''1c'' @ primary @ ''&)}''"

definition textWithAnimations :: "string \<Rightarrow> string \<Rightarrow> Segment \<Rightarrow> string" where
  "textWithAnimations primary highlight segment =
     join '' '' (map (\<lambda>wordInfo. animationTag primary highlight wordInfo @ word wordInfo)
                   (words segment))"

definition dialogueLine :: "string \<Rightarrow> string \<Rightarrow> Segment \<Rightarrow> string" where
  "dialogueLine primary highlight segment =
     ''Dialogue: 0,'' @ formatASSTime (startTime segment) @ '','' @ formatASSTime (endTime segment)
     @ '',Default,,0,0,0,,'' @ textWithAnimations primary highlight segment @ [newline]"

definition assEvents :: "WordTimestamp list \<Rightarrow> ASSGeneratorOptions \<Rightarrow> string" where
  \<comment> \<open>What the \<^verbatim>\<open>segments.forEach\<close> loop appends: one dialogue line per segment.\<close>
  "assEvents timestamps options =
     (let primary = colorToASS (or_default (primaryColor options) ''#FFFFFF'');
          highlight = colorToASS (or_default (highlightColor options) ''#FFD700'');
          segments = segmentWords timestamps (or_default_int (wordsPerSegment options) 3)
      in concat (map (dialogueLine primary highlight) segments))"

definition generateASS ::
  "(rat \<Rightarrow> string) \<Rightarrow> WordTimestamp list \<Rightarrow> ASSGeneratorOptions \<Rightarrow> string" where
  "generateASS show_num timestamps options =
     assHeader show_num options @ assEvents timestamps options"


subsection \<open>Properties of a segmentation, stated on its result\<close>

definition segment_of_words :: "Segment \<Rightarrow> bool" where
  \<comment> \<open>A segment spans its own words: it is not empty, starts with its first word and
      ends with its last.\<close>
  "segment_of_words s \<longleftrightarrow>
     words s \<noteq> [] \<and> startTime s = start (hd (words s)) \<and> endTime s = finish (last (words s))"



definition times :: "WordTimestamp list \<Rightarrow> rat list" where
  \<comment> \<open>The instants of a word list in reading order: start, end, start, end, ...\<close>
  "times ws = concat (map (\<lambda>w. [start w, finish w]) ws)"

definition segments_overlap :: "Segment \<Rightarrow> Segment \<Rightarrow> bool" where
  \<comment> \<open>Two closed intervals \<open>[startTime, endTime]\<close> share an instant.\<close>
  "segments_overlap a b \<longleftrightarrow> startTime a \<le> endTime b \<and> startTime b \<le> endTime a"

fun pairwise_disjoint :: "Segment list \<Rightarrow> bool" where
  "pairwise_disjoint [] = True"
| "pairwise_disjoint (s # ss) = (list_all (\<lambda>r. \<not> segments_overlap s r) ss \<and> pairwise_disjoint ss)"

subsection \<open>The time format, stated on whole centiseconds\<close>








section \<open>The video processors (\<^verbatim>\<open>src/queue/video/processor.ts\<close>)\<close>

definition truthy :: "string option \<Rightarrow> bool" where
  \<comment> \<open>\<^verbatim>\<open>!!value\<close> on an optional string\<close>
  "truthy v = (case v of None \<Rightarrow> False | Some s \<Rightarrow> s \<noteq> [])"

definition quote :: char where
  "quote = char_of (39 :: nat)"

definition escape_quotes :: "string \<Rightarrow> string" where
  \<comment> \<open>\<^verbatim>\<open>path.replace(/'/g, "'\\''")\<close>\<close>
  "escape_quotes s = concat (map (\<lambda>c. if c = quote then [quote, backslash, quote, quote] else [c]) s)"

subsection \<open>The filter graph of \<^verbatim>\<open>processVideoCompose\<close>\<close>

text \<open>
  The source appends the text of one filter chain after the other to \<^verbatim>\<open>filterComplex\<close>.
  A chain is kept here as its input labels, its filters and its output label;
  \<open>render_graph\<close> below gives back the text. Numbers that the source interpolates with
  their default formatting are rendered by the parameter \<open>show_num\<close>.
\<close>

datatype Filter =
    VolumeFull                 \<comment> \<open>\<^verbatim>\<open>volume=1.0\<close>\<close>
  | Volume rat                 \<comment> \<open>\<^verbatim>\<open>volume=${musicVolume}\<close>\<close>
  | Amix                       \<comment> \<open>\<^verbatim>\<open>amix=inputs=2:duration=first\<close>\<close>
  | ScaleCover rat rat         \<comment> \<open>\<^verbatim>\<open>scale=W:H:force_original_aspect_ratio=increase\<close>\<close>
  | Crop rat rat               \<comment> \<open>\<^verbatim>\<open>crop=W:H\<close>\<close>
  | Trim rat                   \<comment> \<open>\<^verbatim>\<open>trim=duration=D\<close>\<close>
  | Ass string                 \<comment> \<open>\<^verbatim>\<open>ass='PATH'\<close>\<close>
  | Drawtext string            \<comment> \<open>the text of \<^verbatim>\<open>drawtextFilter\<close>\<close>
  | ScaleWidth int             \<comment> \<open>\<^verbatim>\<open>scale=N:-1\<close>\<close>
  | FormatYuva                 \<comment> \<open>\<^verbatim>\<open>format=yuva420p\<close>\<close>
  | ColorChannelMixer rat      \<comment> \<open>\<^verbatim>\<open>colorchannelmixer=aa=A\<close>\<close>
  | Overlay string             \<comment> \<open>\<^verbatim>\<open>overlay=POSITION\<close>\<close>

record Chain =
  inputLabels :: "string list"
  filters :: "Filter list"
  outputLabel :: string

fun render_filter :: "(rat \<Rightarrow> string) \<Rightarrow> Filter \<Rightarrow> string" where
  "render_filter show_num VolumeFull = ''volume=1.0''"
| "render_filter show_num (Volume v) = ''volume='' @ show_num v"
| "render_filter show_num Amix = ''amix=inputs=2:duration=first''"
| "render_filter show_num (ScaleCover w h) =
     ''scale='' @ show_num w @ '':'' @ show_num h @ '':force_original_aspect_ratio=increase''"
| "render_filter show_num (Crop w h) = ''crop='' @ show_num w @ '':'' @ show_num h"
| "render_filter show_num (Trim d) = ''trim=duration='' @ show_num d"
| "render_filter show_num (Ass p) = ''ass='' @ [quote] @ p @ [quote]"
| "render_filter show_num (Drawtext d) = d"
| "render_filter show_num (ScaleWidth n) = ''scale='' @ int_to_string n @ '':-1''"
| "render_filter show_num FormatYuva = ''format=yuva420p''"
| "render_filter show_num (ColorChannelMixer a) = ''colorchannelmixer=aa='' @ show_num a"
| "render_filter show_num (Overlay pos) = ''overlay='' @ pos"

definition render_chain :: "(rat \<Rightarrow> string) \<Rightarrow> Chain \<Rightarrow> string" where
  "render_chain show_num c =
     concat (map (\<lambda>l. ''['' @ l @ '']'') (inputLabels c))
     @ join '','' (map (render_filter show_num) (filters c)) @ ''['' @ outputLabel c @ '']''"

definition render_graph :: "(rat \<Rightarrow> string) \<Rightarrow> Chain list \<Rightarrow> string" where
  \<comment> \<open>Every chain but the last one ends with a semicolon in the source.\<close>
  "render_graph show_num cs = join '';'' (map (render_chain show_num) cs)"

record ComposeJob =
  musicUrl :: "string option"
  musicVolume :: "rat option"          \<comment> \<open>default 0.4\<close>
  wordTimestamps :: "WordTimestamp list"
  duration :: rat
  watermarkText :: "string option"
  watermarkUrl :: "string option"
  watermarkScale :: "rat option"       \<comment> \<open>default 0.35\<close>
  watermarkOpacity :: "rat option"     \<comment> \<open>default 0.85\<close>
  targetWidth :: rat                   \<comment> \<open>\<^verbatim>\<open>resolution.split('x').map(Number)\<close>, first part\<close>
  targetHeight :: rat                  \<comment> \<open>second part\<close>

definition default_to :: "rat option \<Rightarrow> rat \<Rightarrow> rat" where
  \<comment> \<open>A destructuring default: it applies to an absent value only.\<close>
  "default_to v d = (case v of None \<Rightarrow> d | Some x \<Rightarrow> x)"

definition musicInputIndex :: "ComposeJob \<Rightarrow> int" where
  "musicInputIndex job = (if truthy (musicUrl job) then 2 else - 1)"

definition watermarkInputIndex :: "ComposeJob \<Rightarrow> int" where
  "watermarkInputIndex job =
     (if truthy (watermarkUrl job) then (if truthy (musicUrl job) then 3 else 2) else - 1)"

definition audioChains :: "ComposeJob \<Rightarrow> Chain list" where
  "audioChains job =
     (if truthy (musicUrl job)
      then [\<lparr>inputLabels = [''1:a''], filters = [VolumeFull], outputLabel = ''tts''\<rparr>,
            \<lparr>inputLabels = [int_to_string (musicInputIndex job) @ '':a''],
             filters = [Volume (default_to (musicVolume job) (4 / 10))], outputLabel = ''music''\<rparr>,
            \<lparr>inputLabels = [''tts'', ''music''], filters = [Amix], outputLabel = ''audio''\<rparr>]
      else [])"

definition backgroundFit :: "ComposeJob \<Rightarrow> Chain" where
  "backgroundFit job =
     \<lparr>inputLabels = [''0:v''],
      filters = [ScaleCover (targetWidth job) (targetHeight job),
                 Crop (targetWidth job) (targetHeight job), Trim (duration job)],
      outputLabel = ''bg''\<rparr>"

definition watermarkChains :: "string \<Rightarrow> string \<Rightarrow> string \<Rightarrow> ComposeJob \<Rightarrow> Chain list" where
  \<comment> \<open>The three branches after the background chain. \<open>captionsPath\<close> is the path of the
      subtitle file, \<open>drawtextFilter\<close> the text built from the text-watermark options,
      \<open>watermarkOverlayPos\<close> the result of \<^verbatim>\<open>getWatermarkPosition\<close>.\<close>
  "watermarkChains captionsPath drawtextFilter watermarkOverlayPos job =
     (let useTextWatermark = truthy (watermarkText job);
          useImageWatermark = (\<not> useTextWatermark \<and> truthy (watermarkUrl job));
          ass = Ass (escape_quotes captionsPath)
      in if useTextWatermark then
           (if length (wordTimestamps job) > 0
            then [\<lparr>inputLabels = [''bg''], filters = [ass], outputLabel = ''captioned''\<rparr>,
                  \<lparr>inputLabels = [''captioned''], filters = [Drawtext drawtextFilter], outputLabel = ''final''\<rparr>]
            else [\<lparr>inputLabels = [''bg''], filters = [Drawtext drawtextFilter], outputLabel = ''final''\<rparr>])
         else if useImageWatermark then
           (let scaledWidth = Math_round (targetWidth job * default_to (watermarkScale job) (35 / 100))
            in [\<lparr>inputLabels = [int_to_string (watermarkInputIndex job) @ '':v''],
                 filters = [ScaleWidth scaledWidth, FormatYuva,
                            ColorChannelMixer (default_to (watermarkOpacity job) (85 / 100))],
                 outputLabel = ''logo''\<rparr>,
                \<lparr>inputLabels = [''bg'', ''logo''], filters = [Overlay watermarkOverlayPos],
                 outputLabel = ''watermarked''\<rparr>,
                \<lparr>inputLabels = [''watermarked''], filters = [ass], outputLabel = ''final''\<rparr>])
         else [\<lparr>inputLabels = [''bg''], filters = [ass], outputLabel = ''final''\<rparr>])"

definition composeFilterGraph :: "string \<Rightarrow> string \<Rightarrow> string \<Rightarrow> ComposeJob \<Rightarrow> Chain list" where
  "composeFilterGraph captionsPath drawtextFilter watermarkOverlayPos job =
     audioChains job @ [backgroundFit job]
     @ watermarkChains captionsPath drawtextFilter watermarkOverlayPos job"

definition filterComplex ::
  "(rat \<Rightarrow> string) \<Rightarrow> string \<Rightarrow> string \<Rightarrow> string \<Rightarrow> ComposeJob \<Rightarrow> string" where
  "filterComplex show_num captionsPath drawtextFilter watermarkOverlayPos job =
     render_graph show_num (composeFilterGraph captionsPath drawtextFilter watermarkOverlayPos job)"

subsection \<open>Reading the stages off a filter graph\<close>

datatype Stage = BackgroundFit | Captions | Watermark

fun stage_of_filter :: "Filter \<Rightarrow> Stage option" where
  "stage_of_filter (ScaleCover w h) = Some BackgroundFit"
| "stage_of_filter (Ass p) = Some Captions"
| "stage_of_filter (Drawtext d) = Some Watermark"
| "stage_of_filter (Overlay pos) = Some Watermark"
| "stage_of_filter f = None"

fun find_consumer :: "string \<Rightarrow> Chain list \<Rightarrow> Chain option" where
  \<comment> \<open>The chain whose first input is the given label.\<close>
  "find_consumer l [] = None"
| "find_consumer l (c # cs) =
     (case inputLabels c of [] \<Rightarrow> find_consumer l cs
      | i # _ \<Rightarrow> if i = l then Some c else find_consumer l cs)"

fun follow :: "nat \<Rightarrow> Chain list \<Rightarrow> string \<Rightarrow> Chain list" where
  \<comment> \<open>The chains a stream passes through, from a label on; the fuel bounds the walk by
      the number of chains.\<close>
  "follow 0 g l = []"
| "follow (Suc n) g l =
     (case find_consumer l g of None \<Rightarrow> [] | Some c \<Rightarrow> c # follow n g (outputLabel c))"

definition video_stages :: "Chain list \<Rightarrow> Stage list" where
  \<comment> \<open>The stages the background video passes through, in order, from input \<^verbatim>\<open>0:v\<close>.\<close>
  "video_stages g =
     List.map_filter stage_of_filter (concat (map filters (follow (length g) g ''0:v'')))"

definition captions_precede_watermark :: "Stage list \<Rightarrow> bool" where
  \<comment> \<open>No watermark stage comes before a caption stage.\<close>
  "captions_precede_watermark st \<longleftrightarrow>
     (Captions \<in> set st \<longrightarrow> Watermark \<notin> set (takeWhile (\<lambda>s. s \<noteq> Captions) st))"


subsection \<open>What the engine does with the background chain\<close>

definition cover_scaled_size :: "rat \<times> rat \<Rightarrow> rat \<Rightarrow> rat \<Rightarrow> rat \<times> rat" where
  \<comment> \<open>Modelled from the spec: the scaling itself is done by the external media engine,
      which is not part of the repository. A frame of size \<open>(sw, sh)\<close> is scaled "to cover
      the target resolution (the larger of the two required scale factors, not the
      smaller)"; sizes are exact, before any rounding to whole pixels.\<close>
  "cover_scaled_size src W H =
     (let factor = max (W / fst src) (H / snd src) in (fst src * factor, snd src * factor))"

fun frame_size_after :: "Filter \<Rightarrow> rat \<times> rat \<Rightarrow> (rat \<times> rat) option" where
  \<comment> \<open>Modelled from the spec: the frame size behind one filter of the external engine.
      A crop "to exact target dimensions" needs the pixels to be there: it fails when it
      asks for more than the frame has.\<close>
  "frame_size_after (ScaleCover W H) sz = Some (cover_scaled_size sz W H)"
| "frame_size_after (Crop w h) sz = (if w \<le> fst sz \<and> h \<le> snd sz then Some (w, h) else None)"
| "frame_size_after f sz = Some sz"

fun frame_size_through :: "Filter list \<Rightarrow> rat \<times> rat \<Rightarrow> (rat \<times> rat) option" where
  "frame_size_through [] sz = Some sz"
| "frame_size_through (f # fs) sz =
     (case frame_size_after f sz of None \<Rightarrow> None | Some sz' \<Rightarrow> frame_size_through fs sz')"

subsection \<open>The crossfade chain of \<^verbatim>\<open>processVideoMerge\<close>\<close>

record TrimBounds =
  trim_start :: "rat option"
  trim_end :: "rat option"

definition effectiveDuration :: "rat option \<Rightarrow> TrimBounds option \<Rightarrow> rat" where
  \<comment> \<open>One round of the probing loop: \<open>probed\<close> is \<^verbatim>\<open>parseFloat(durationOut.trim())\<close>.\<close>
  "effectiveDuration probed trim =
     (let fullDuration = or_default_num probed 0;
          start = or_default_num (Option.bind trim trim_start) 0;
          end' = or_default_num (Option.bind trim trim_end) fullDuration
      in min end' fullDuration - start)"

definition probeDurations :: "(rat option \<times> TrimBounds option) list \<Rightarrow> rat list" where
  \<comment> \<open>\<^verbatim>\<open>durations\<close>: one entry per input, in input order.\<close>
  "probeDurations clips = map (\<lambda>(probed, trim). effectiveDuration probed trim) clips"

record XfadePart =
  xf_first :: string      \<comment> \<open>\<^verbatim>\<open>lastVideoLabel\<close>\<close>
  xf_second :: string     \<comment> \<open>\<^verbatim>\<open>v${i}\<close>\<close>
  xf_duration :: rat      \<comment> \<open>\<^verbatim>\<open>transitionDuration\<close>\<close>
  xf_offset :: rat        \<comment> \<open>\<^verbatim>\<open>cumulativeOffset\<close>, before \<^verbatim>\<open>toFixed(3)\<close>\<close>
  xf_out :: string        \<comment> \<open>\<^verbatim>\<open>outputLabel\<close>\<close>

fun xfadeLoop :: "rat list \<Rightarrow> rat \<Rightarrow> nat \<Rightarrow> nat list \<Rightarrow> rat \<Rightarrow> string \<Rightarrow> XfadePart list" where
  \<comment> \<open>The loop \<^verbatim>\<open>for (let i = 1; i < inputPaths.length; i++)\<close> over the indices still to
      come; \<open>n\<close> is \<^verbatim>\<open>inputPaths.length\<close>.\<close>
  "xfadeLoop durations transitionDuration n [] cumulativeOffset lastVideoLabel = []"
| "xfadeLoop durations transitionDuration n (i # rest) cumulativeOffset lastVideoLabel =
     (let cumulativeOffset' = cumulativeOffset + (durations ! (i - 1) - transitionDuration);
          outputLabel' = (if i = n - 1 then ''vout'' else ''xv'' @ nat_to_string i)
      in \<lparr>xf_first = lastVideoLabel, xf_second = ''v'' @ nat_to_string i,
          xf_duration = transitionDuration, xf_offset = cumulativeOffset', xf_out = outputLabel'\<rparr>
         # xfadeLoop durations transitionDuration n rest cumulativeOffset' outputLabel')"

definition xfadeChain :: "rat list \<Rightarrow> rat \<Rightarrow> XfadePart list" where
  "xfadeChain durations transitionDuration =
     xfadeLoop durations transitionDuration (length durations) [1..<length durations] 0 ''v0''"

definition toFixed3 :: "rat \<Rightarrow> string" where
  \<comment> \<open>\<^verbatim>\<open>x.toFixed(3)\<close>: the nearest multiple of 0.001 (the larger one at a tie, on the
      absolute value), with three decimals.\<close>
  "toFixed3 x =
     (let n = nat \<lfloor>\<bar>x\<bar> * 1000 + 1 / 2\<rfloor>
      in (if x < 0 then ''-'' else []) @ nat_to_string (n div 1000) @ ''.''
         @ padStart 3 CHR ''0'' (nat_to_string (n mod 1000)))"

definition render_xfade :: "(rat \<Rightarrow> string) \<Rightarrow> XfadePart \<Rightarrow> string" where
  "render_xfade show_num p =
     ''['' @ xf_first p @ ''][''  @ xf_second p @ '']xfade=transition=fade:duration=''
     @ show_num (xf_duration p) @ '':offset='' @ toFixed3 (xf_offset p) @ ''['' @ xf_out p @ ''];''"

subsection \<open>The overlay size of \<^verbatim>\<open>processVideoOverlay\<close>\<close>



subsection \<open>The life of a composition job\<close>

text \<open>
  \<^verbatim>\<open>processVideoCompose\<close> calls the file system, the downloader, the engine and the
  object storage in a fixed order inside one \<^verbatim>\<open>try\<close> block. What each call answers is
  given by the environment: \<open>None\<close> for a call that returns, \<open>Some message\<close> for one
  that throws. The state that matters afterwards is whether the job's directory exists
  and how often its removal was asked for.
\<close>

datatype StorageMode = S3 | Stateless

record Outcomes =
  storage_mode :: StorageMode                \<comment> \<open>\<^verbatim>\<open>env.STORAGE_MODE\<close>\<close>
  mkdir_throws :: "string option"
  writeFile_throws :: "string option"
  background_throws :: "string option"       \<comment> \<open>\<^verbatim>\<open>getCachedBackgroundVideo\<close>\<close>
  downloads_throw :: "string option"         \<comment> \<open>\<^verbatim>\<open>Promise.all\<close> of the downloads\<close>
  ffmpeg_throws :: "string option"           \<comment> \<open>\<^verbatim>\<open>execFileAsync('ffmpeg', ...)\<close>\<close>
  upload_answer :: "string + string"         \<comment> \<open>\<open>Inl\<close> the error thrown, \<open>Inr\<close> the URL\<close>
  rm_throws :: "string option"               \<comment> \<open>the removal after the upload\<close>
  cleanup_rm_fails :: bool                   \<comment> \<open>the removal in the \<^verbatim>\<open>catch\<close> block\<close>

record World =
  workspace_exists :: bool
  rm_calls :: nat

record JobResult =
  success :: bool
  outputUrl :: "string option"
  outputPath :: "string option"
  error :: "string option"

definition initial_world :: World where
  "initial_world = \<lparr>workspace_exists = False, rm_calls = 0\<rparr>"

definition tryBlock :: "string \<Rightarrow> Outcomes \<Rightarrow> World \<Rightarrow> (string + JobResult) \<times> World" where
  \<comment> \<open>The body of \<^verbatim>\<open>try\<close>: \<open>Inl message\<close> is an exception on its way to \<^verbatim>\<open>catch\<close>.
      \<open>w1\<close> is the world once \<^verbatim>\<open>mkdir\<close> has returned.\<close>
  "tryBlock outputFile env w =
     (let w1 = w\<lparr>workspace_exists := True\<rparr> in
      (case mkdir_throws env of Some e \<Rightarrow> (Inl e, w) | None \<Rightarrow>
      (case writeFile_throws env of Some e \<Rightarrow> (Inl e, w1) | None \<Rightarrow>
      (case background_throws env of Some e \<Rightarrow> (Inl e, w1) | None \<Rightarrow>
      (case downloads_throw env of Some e \<Rightarrow> (Inl e, w1) | None \<Rightarrow>
      (case ffmpeg_throws env of Some e \<Rightarrow> (Inl e, w1) | None \<Rightarrow>
      (if storage_mode env = S3 then
         (case upload_answer env of Inl e \<Rightarrow> (Inl e, w1) | Inr u \<Rightarrow>
         (case rm_throws env of
            Some e \<Rightarrow> (Inl e, w1\<lparr>rm_calls := rm_calls w1 + 1\<rparr>)
          | None \<Rightarrow>
              (Inr \<lparr>success = True, outputUrl = Some u, outputPath = None, error = None\<rparr>,
               w1\<lparr>workspace_exists := False, rm_calls := rm_calls w1 + 1\<rparr>)))
       else (Inr \<lparr>success = True, outputUrl = None, outputPath = Some outputFile, error = None\<rparr>,
             w1))))))))"

definition catchBlock :: "Outcomes \<Rightarrow> string \<Rightarrow> World \<Rightarrow> JobResult \<times> World" where
  \<comment> \<open>The \<^verbatim>\<open>catch\<close> block: remove the directory, ignoring an error of the removal,
      and report the failure.\<close>
  "catchBlock env errorMessage w =
     (\<lparr>success = False, outputUrl = None, outputPath = None,
       error = Some (''Failed to compose video: '' @ errorMessage)\<rparr>,
      w\<lparr>workspace_exists := (workspace_exists w \<and> cleanup_rm_fails env),
        rm_calls := rm_calls w + 1\<rparr>)"

definition processVideoCompose :: "string \<Rightarrow> Outcomes \<Rightarrow> World \<Rightarrow> JobResult \<times> World" where
  "processVideoCompose outputFile env w =
     (case tryBlock outputFile env w of
        (Inr result, w') \<Rightarrow> (result, w')
      | (Inl errorMessage, w') \<Rightarrow> catchBlock env errorMessage w')"

definition some_stage_fails :: "Outcomes \<Rightarrow> bool" where
  \<comment> \<open>One of the calls up to and including the upload throws. The upload is only made
      in S3 mode.\<close>
  "some_stage_fails env \<longleftrightarrow>
     mkdir_throws env \<noteq> None \<or> writeFile_throws env \<noteq> None \<or> background_throws env \<noteq> None
     \<or> downloads_throw env \<noteq> None \<or> ffmpeg_throws env \<noteq> None
     \<or> (storage_mode env = S3 \<and> isl (upload_answer env))"

section \<open>Example inputs\<close>

definition scenario_phrase :: "WordTimestamp list" where
  \<comment> \<open>Three words without a pause.\<close>
  "scenario_phrase =
     [\<lparr>word = ''This'', start = 0, finish = 2 / 10\<rparr>,
      \<lparr>word = ''is'', start = 2 / 10, finish = 4 / 10\<rparr>,
      \<lparr>word = ''brainrot'', start = 4 / 10, finish = 1\<rparr>]"

definition scenario_pause :: "WordTimestamp list" where
  \<comment> \<open>A gap of 0.4 s between the second and the third word.\<close>
  "scenario_pause =
     [\<lparr>word = ''A'', start = 0, finish = 2 / 10\<rparr>,
      \<lparr>word = ''B'', start = 2 / 10, finish = 4 / 10\<rparr>,
      \<lparr>word = ''C'', start = 8 / 10, finish = 1\<rparr>]"

definition scenario_long_word :: "WordTimestamp list" where
  \<comment> \<open>Starts do not decrease and every word ends after it starts, but the third word
      is still spoken when the fourth begins.\<close>
  "scenario_long_word =
     [\<lparr>word = ''a'', start = 0, finish = 1\<rparr>,
      \<lparr>word = ''b'', start = 1, finish = 2\<rparr>,
      \<lparr>word = ''c'', start = 2, finish = 10\<rparr>,
      \<lparr>word = ''d'', start = 3, finish = 4\<rparr>]"

definition scenario_two_words :: "WordTimestamp list" where
  "scenario_two_words =
     [\<lparr>word = ''Full'', start = 1, finish = 5 / 4\<rparr>,
      \<lparr>word = ''cap'', start = 3 / 2, finish = 2\<rparr>]"

definition scenario_first_word :: "WordTimestamp list" where
  "scenario_first_word = [\<lparr>word = ''Hi'', start = 0, finish = 1 / 2\<rparr>]"

definition default_options :: ASSGeneratorOptions where
  \<comment> \<open>Only the resolution is given; every style option takes its default.\<close>
  "default_options =
     \<lparr>resolution = (1080, 1920), fontFamily = None, fontSize = None, primaryColor = None,
      highlightColor = None, outlineColor = None, marginBottom = None, wordsPerSegment = None\<rparr>"

definition show_whole :: "rat \<Rightarrow> string" where
  \<comment> \<open>The default formatting of a number, for the whole numbers of the examples.\<close>
  "show_whole x = int_to_string \<lfloor>x\<rfloor>"

definition image_watermark_job :: ComposeJob where
  \<comment> \<open>Captions for one word and an image watermark, no text watermark, no music.\<close>
  "image_watermark_job =
     \<lparr>musicUrl = None, musicVolume = None, wordTimestamps = scenario_first_word,
      duration = 10, watermarkText = None, watermarkUrl = Some ''https://cdn.example/logo.png'',
      watermarkScale = None, watermarkOpacity = None, targetWidth = 1080, targetHeight = 1920\<rparr>"

definition silent_job :: ComposeJob where
  \<comment> \<open>No watermark of either kind and an empty timestamp list.\<close>
  "silent_job =
     \<lparr>musicUrl = None, musicVolume = None, wordTimestamps = [],
      duration = 10, watermarkText = None, watermarkUrl = None,
      watermarkScale = None, watermarkOpacity = None, targetWidth = 1080, targetHeight = 1920\<rparr>"

definition text_watermark_job :: ComposeJob where
  \<comment> \<open>Captions, a text watermark and background music.\<close>
  "text_watermark_job =
     \<lparr>musicUrl = Some ''https://cdn.example/music.mp3'', musicVolume = None,
      wordTimestamps = scenario_phrase, duration = 10, watermarkText = Some ''brand'',
      watermarkUrl = None, watermarkScale = None, watermarkOpacity = None,
      targetWidth = 1080, targetHeight = 1920\<rparr>"

definition three_clips :: "(rat option \<times> TrimBounds option) list" where
  \<comment> \<open>Probed durations 10 s, 8 s and 20 s; the third clip is cut at 12 s.\<close>
  "three_clips =
     [(Some 10, None), (Some 8, None), (Some 20, Some \<lparr>trim_start = None, trim_end = Some 12\<rparr>)]"

definition all_calls_return :: "StorageMode \<Rightarrow> Outcomes" where
  "all_calls_return mode =
     \<lparr>storage_mode = mode, mkdir_throws = None, writeFile_throws = None,
      background_throws = None, downloads_throw = None, ffmpeg_throws = None,
      upload_answer = Inr ''https://bucket.example/job.mp4'', rm_throws = None,
      cleanup_rm_fails = False\<rparr>"

definition engine_fails :: Outcomes where
  "engine_fails = (all_calls_return S3)\<lparr>ffmpeg_throws := Some ''Command failed: ffmpeg''\<rparr>"


section \<open>Segmentation: what the loop produces\<close>

lemma foldl_segmentStep:
  "k \<le> length ts \<Longrightarrow>
     fst (foldl (segmentStep ts m) (segs, cur, st) [k..<length ts])
       = segmentLoop m (drop k ts) segs cur st"
proof (induction "length ts - k" arbitrary: k segs cur st)
  case 0
  then show ?case by simp
next
  case (Suc d)
  then have k: "k < length ts" by simp
  have upt: "[k..<length ts] = k # [Suc k..<length ts]"
    using k by (rule upt_conv_Cons)
  have drop: "drop k ts = ts ! k # drop (Suc k) ts"
    using k by (rule Cons_nth_drop_Suc [symmetric])
  have last: "(int k = int (length ts) - 1) = (drop (Suc k) ts = [])"
    using k by auto
  have nxt: "drop (Suc k) ts \<noteq> [] \<Longrightarrow> hd (drop (Suc k) ts) = ts ! (k + 1)"
    by (simp add: hd_drop_conv_nth)
  have IH: "fst (foldl (segmentStep ts m) (segs', cur', st') [Suc k..<length ts])
       = segmentLoop m (drop (Suc k) ts) segs' cur' st'" for segs' cur' st'
    using Suc.hyps(1) [of "Suc k"] Suc.hyps(2) k by simp
  show ?case
  proof (cases "drop (Suc k) ts")
    case Nil
    then show ?thesis
      using last by (simp add: upt drop segmentStep_def Let_def IH)
  next
    case (Cons n ns)
    with nxt have "ts ! (k + 1) = n" by simp
    with Cons show ?thesis
      using last by (simp add: upt drop segmentStep_def Let_def IH)
  qed
qed

lemma segmentWords_loop: "segmentWords ts m = segmentLoop m ts [] [] 0"
  using foldl_segmentStep [of 0 ts m "[]" "[]" 0] by (simp add: segmentWords_def)

lemma segmentLoop_acc:
  "segmentLoop m ts segs cur st = segs @ segmentLoop m ts [] cur st"
proof (induction ts arbitrary: segs cur st)
  case Nil
  show ?case by simp
next
  case (Cons t rest)
  define st' where "st' = (if cur = [] then start t else st)"
  define c where "c = closeSegment st' (cur @ [t])"
  have closed: "segmentLoop m rest (segs @ [c]) [] st' = segs @ segmentLoop m rest [c] [] st'"
    using Cons.IH [of "segs @ [c]" "[]" st'] Cons.IH [of "[c]" "[]" st'] by simp
  have opened: "segmentLoop m rest segs (cur @ [t]) st' = segs @ segmentLoop m rest [] (cur @ [t]) st'"
    using Cons.IH [of segs "cur @ [t]" st'] .
  show ?case
    using closed opened unfolding st'_def c_def by (simp add: Let_def)
qed

lemma segmentLoop_close:
  assumes "rest = [] \<or> m \<le> int (length cur) + 1 \<or> (rest \<noteq> [] \<and> start (hd rest) - finish t > 3 / 10)"
  shows "segmentLoop m (t # rest) [] cur st =
           closeSegment (if cur = [] then start t else st) (cur @ [t])
           # segmentLoop m rest [] [] (if cur = [] then start t else st)"
  using assms
  by (cases rest) (auto simp: Let_def segmentLoop_acc [of _ _ "[_]"])

lemma segmentLoop_continue:
  assumes "rest \<noteq> []" "\<not> m \<le> int (length cur) + 1" "\<not> start (hd rest) - finish t > 3 / 10"
  shows "segmentLoop m (t # rest) [] cur st =
           segmentLoop m rest [] (cur @ [t]) (if cur = [] then start t else st)"
  using assms
  by (cases rest) (auto simp: Let_def)

declare segmentLoop.simps(2) [simp del]

lemma segmentLoop_cases:
  obtains (close) "rest = [] \<or> m \<le> int (length cur) + 1 \<or> (rest \<noteq> [] \<and> start (hd rest) - finish t > 3 / 10)"
  | (continue) "rest \<noteq> []" "\<not> m \<le> int (length cur) + 1" "\<not> start (hd rest) - finish t > 3 / 10"
  by blast

lemma segmentLoop_concat:
  "ts \<noteq> [] \<Longrightarrow> concat (map words (segmentLoop m ts [] cur st)) = cur @ ts"
proof (induction ts arbitrary: cur st)
  case Nil
  then show ?case by simp
next
  case (Cons t rest)
  show ?case
  proof (cases rule: segmentLoop_cases [of rest m cur t])
    case close
    show ?thesis
    proof (cases "rest = []")
      case True
      then show ?thesis by (simp add: segmentLoop_close closeSegment_def)
    next
      case False
      with close Cons.IH [of "[]"] show ?thesis
        by (simp add: segmentLoop_close closeSegment_def)
    qed
  next
    case continue
    with Cons.IH [of "cur @ [t]"] show ?thesis
      by (simp add: segmentLoop_continue)
  qed
qed

lemma segmentLoop_segment_of_words:
  "(cur \<noteq> [] \<Longrightarrow> st = start (hd cur)) \<Longrightarrow> s \<in> set (segmentLoop m ts [] cur st) \<Longrightarrow> segment_of_words s"
proof (induction ts arbitrary: cur st)
  case Nil
  then show ?case by simp
next
  case (Cons t rest)
  have st': "(if cur = [] then start t else st) = start (hd (cur @ [t]))"
    using Cons.prems(1) by (cases cur) auto
  show ?case
  proof (cases rule: segmentLoop_cases [of rest m cur t])
    case close
    with Cons.prems(2) consider "s = closeSegment (start (hd (cur @ [t]))) (cur @ [t])"
      | "s \<in> set (segmentLoop m rest [] [] (start (hd (cur @ [t]))))"
      by (auto simp: segmentLoop_close st')
    then show ?thesis
    proof cases
      case 1
      then show ?thesis by (simp add: segment_of_words_def closeSegment_def)
    next
      case 2
      then show ?thesis using Cons.IH [of "[]"] by simp
    qed
  next
    case continue
    with Cons.prems(2) have "s \<in> set (segmentLoop m rest [] (cur @ [t]) (start (hd (cur @ [t]))))"
      by (simp add: segmentLoop_continue st')
    then show ?thesis using Cons.IH [of "cur @ [t]"] by simp
  qed
qed






lemma times_append: "times (xs @ ys) = times xs @ times ys"
  by (simp add: times_def)

lemma times_Cons: "times (w # ws) = start w # finish w # times ws"
  by (simp add: times_def)

lemma start_hd_in_times: "ws \<noteq> [] \<Longrightarrow> start (hd ws) \<in> set (times ws)"
  by (cases ws) (simp_all add: times_Cons)

lemma finish_last_in_times: "ws \<noteq> [] \<Longrightarrow> finish (last ws) \<in> set (times ws)"
  by (induction ws) (auto simp: times_Cons)

lemma sorted_times_hd_last: "ws \<noteq> [] \<Longrightarrow> sorted (times ws) \<Longrightarrow> start (hd ws) \<le> finish (last ws)"
  using finish_last_in_times [of ws] by (cases ws) (auto simp: times_Cons)

lemma sorted_times_iff:
  "sorted (times ws) \<longleftrightarrow>
     (\<forall>w \<in> set ws. start w \<le> finish w) \<and> successively (\<lambda>a b. finish a \<le> start b) ws"
proof (induction ws)
  case Nil
  show ?case by (simp add: times_def)
next
  case (Cons w ws)
  show ?case
  proof (cases ws)
    case Nil
    then show ?thesis by (simp add: times_def)
  next
    case (Cons v vs)
    have "sorted (start w # finish w # start v # finish v # times vs) \<longleftrightarrow>
          start w \<le> finish w \<and> finish w \<le> start v \<and> sorted (start v # finish v # times vs)"
      by auto
    then show ?thesis using Cons.IH Cons
      by (simp add: times_Cons del: sorted_wrt.simps) blast
  qed
qed

lemma chunks_ordered:
  "\<forall>s \<in> set segs. segment_of_words s \<Longrightarrow> sorted (times (concat (map words segs))) \<Longrightarrow>
     sorted_wrt (\<lambda>a b. endTime a \<le> startTime b) segs \<and> (\<forall>s \<in> set segs. startTime s \<le> endTime s)"
proof (induction segs)
  case Nil
  show ?case by simp
next
  case (Cons s segs)
  from Cons.prems(1) have s: "words s \<noteq> []" "startTime s = start (hd (words s))"
    "endTime s = finish (last (words s))"
    by (simp_all add: segment_of_words_def)
  from Cons.prems(2) have sorted: "sorted (times (words s))" "sorted (times (concat (map words segs)))"
    and le: "\<forall>a \<in> set (times (words s)). \<forall>b \<in> set (times (concat (map words segs))). a \<le> b"
    by (simp_all add: times_append sorted_append)
  have "endTime s \<le> startTime s'" if "s' \<in> set segs" for s'
  proof -
    from that Cons.prems(1) have s': "words s' \<noteq> []" "startTime s' = start (hd (words s'))"
      by (simp_all add: segment_of_words_def)
    have "start (hd (words s')) \<in> set (times (words s'))"
      using s'(1) by (rule start_hd_in_times)
    with that have "startTime s' \<in> set (times (concat (map words segs)))"
      by (auto simp: s'(2) times_def)
    moreover have "endTime s \<in> set (times (words s))"
      using s(1) by (simp add: s(3) finish_last_in_times)
    ultimately show ?thesis using le by blast
  qed
  moreover have "startTime s \<le> endTime s"
    using sorted_times_hd_last [OF s(1) sorted(1)] by (simp add: s)
  ultimately show ?case using Cons.IH Cons.prems(1) sorted(2) by simp
qed

subsection \<open>The closing rule\<close>



lemma scenario_phrase_segments:
  "segmentWords scenario_phrase 3 = [\<lparr>startTime = 0, endTime = 1, words = scenario_phrase\<rparr>]"
  by code_simp

lemma generateASS_default_maximum:
  "wordsPerSegment options = None \<Longrightarrow>
     generateASS show_num timestamps options
       = assHeader show_num options
         @ concat (map (dialogueLine
             (colorToASS (or_default (primaryColor options) ''#FFFFFF''))
             (colorToASS (or_default (highlightColor options) ''#FFD700'')))
           (segmentWords timestamps 3))"
  by (simp add: generateASS_def assEvents_def or_default_int_def Let_def)


subsection \<open>Segments in time\<close>

text \<open>
  C5, as stated: for any timestamp sequence the intervals \<open>[startTime, endTime]\<close> of two
  produced segments do not overlap. The input \<open>scenario_long_word\<close> refutes it: its
  starts do not decrease, yet the first segment runs from 0 to 10 and the second from 3
  to 4.
\<close>

theorem segments_overlap_counterexample:
  "\<not> pairwise_disjoint (segmentWords scenario_long_word 3)"
  by code_simp

text \<open>
  C5, amended: when every word ends no earlier than it starts and every word starts no
  earlier than the word before it ends, the segments are ordered in time: each one
  starts no later than it ends, and each one ends no later than every later one starts.
  Two segments then share at most one boundary instant.
\<close>

theorem segmentWords_time_ordered:
  assumes "\<forall>w \<in> set timestamps. start w \<le> finish w"
    and "successively (\<lambda>a b. finish a \<le> start b) timestamps"
  shows "sorted_wrt (\<lambda>a b. endTime a \<le> startTime b) (segmentWords timestamps maxWordsPerSegment)
       \<and> list_all (\<lambda>s. startTime s \<le> endTime s) (segmentWords timestamps maxWordsPerSegment)"
proof (cases "timestamps = []")
  case True
  then show ?thesis by (simp add: segmentWords_loop)
next
  case False
  let ?segs = "segmentLoop maxWordsPerSegment timestamps [] [] 0"
  have "\<forall>s \<in> set ?segs. segment_of_words s"
    using segmentLoop_segment_of_words [of "[]" _ _ maxWordsPerSegment timestamps] by simp
  moreover have "sorted (times (concat (map words ?segs)))"
    using assms False by (simp add: segmentLoop_concat sorted_times_iff)
  ultimately show ?thesis
    using chunks_ordered [of ?segs] by (simp add: segmentWords_loop list_all_iff)
qed

theorem segmentWords_time_ordered_witness:
  "list_all (\<lambda>w. start w \<le> finish w) scenario_pause
   \<and> successively (\<lambda>a b. finish a \<le> start b) scenario_pause
   \<and> sorted_wrt (\<lambda>a b. endTime a \<le> startTime b) (segmentWords scenario_pause 3)
   \<and> list_all (\<lambda>s. startTime s \<le> endTime s) (segmentWords scenario_pause 3)
   \<and> map (\<lambda>s. (startTime s, endTime s)) (segmentWords scenario_pause 3)
       = [(0, 4 / 10), (8 / 10, 1)]"
proof -
  have a: "list_all (\<lambda>w. start w \<le> finish w) scenario_pause"
    by (simp add: scenario_pause_def)
  have b: "successively (\<lambda>a b. finish a \<le> start b) scenario_pause"
    by (simp add: scenario_pause_def)
  have c: "map (\<lambda>s. (startTime s, endTime s)) (segmentWords scenario_pause 3)
             = [(0, 4 / 10), (8 / 10, 1)]"
    by code_simp
  from a have a': "\<forall>w \<in> set scenario_pause. start w \<le> finish w"
    by (simp only: list_all_iff)
  show ?thesis
    using segmentWords_time_ordered [OF a' b, of 3] a b c by blast
qed

section \<open>The time format\<close>


























section \<open>The highlight directives\<close>

text \<open>
  C1 says that a word other than the first of its segment gets highlight offsets
  relative to the segment's start: \<open>word.start - segment.startTime\<close> in milliseconds.
  The generator does not do that. For the words \<open>Full\<close> (1 s to 1.25 s) and \<open>cap\<close>
  (1.5 s to 2 s), one segment starting at 1 s, the directive of \<open>cap\<close> carries 1500 and
  2000, the absolute times, where the claim asks for 500 and 1000.
\<close>

theorem highlight_times_absolute:
  "segmentWords scenario_two_words 3
     = [\<lparr>startTime = 1, endTime = 2, words = scenario_two_words\<rparr>]
   \<and> map highlightStartMs scenario_two_words = [1000, 1500]
   \<and> map highlightEndMs scenario_two_words = [1250, 2000]
   \<and> Math_round ((start (scenario_two_words ! 1)
                      - startTime (hd (segmentWords scenario_two_words 3))) * 1000) = 500
   \<and> Math_round ((finish (scenario_two_words ! 1)
                      - startTime (hd (segmentWords scenario_two_words 3))) * 1000) = 1000
   \<and> generateASS show_whole scenario_two_words default_options
     = assHeader show_whole default_options
       @ ''Dialogue: 0,0:00:01.00,0:00:02.00,Default,,0,0,0,,{'' @ [backslash]
       @ ''1c&H00FFFFFF&'' @ [backslash] @ ''t(1000,1000,'' @ [backslash]
       @ ''1c&H0000D7FF&)'' @ [backslash] @ ''t(1250,1250,'' @ [backslash]
       @ ''1c&H00FFFFFF&)}Full {'' @ [backslash]
       @ ''1c&H00FFFFFF&'' @ [backslash] @ ''t(1500,1500,'' @ [backslash]
       @ ''1c&H0000D7FF&)'' @ [backslash] @ ''t(2000,2000,'' @ [backslash]
       @ ''1c&H00FFFFFF&)}cap'' @ [newline]"
  by code_simp

text \<open>
  C6 says that the first word of a segment is rendered highlighted from the start and
  only gets the transition out of the highlight, never a transition at offset 0. The
  generator treats the first word like every other word: for the single word \<open>Hi\<close>
  (0 s to 0.5 s) the directive starts in the primary colour and schedules the
  transition into the highlight at offset 0.
\<close>

theorem first_word_transition_at_zero:
  "highlightStartMs (hd scenario_first_word) = 0
   \<and> generateASS show_whole scenario_first_word default_options
     = assHeader show_whole default_options
       @ ''Dialogue: 0,0:00:00.00,0:00:00.50,Default,,0,0,0,,{'' @ [backslash]
       @ ''1c&H00FFFFFF&'' @ [backslash] @ ''t(0,0,'' @ [backslash]
       @ ''1c&H0000D7FF&)'' @ [backslash] @ ''t(500,500,'' @ [backslash]
       @ ''1c&H00FFFFFF&)}Hi'' @ [newline]"
  by code_simp

section \<open>The filter graph of a composition\<close>

text \<open>
  C2, as stated: captions are always composited before the watermark, for the text and
  for the image variant, and an empty timestamp list leaves the caption stage out. With
  an image watermark the graph overlays the watermark on the fitted background first
  and burns the captions in afterwards; and without a text watermark the caption stage
  is there even for an empty timestamp list.
\<close>

theorem image_watermark_below_captions:
  "video_stages (composeFilterGraph ''/tmp/job/captions.ass'' ''drawtext=text=brand'' ''10:10''
      image_watermark_job) = [BackgroundFit, Watermark, Captions]
   \<and> \<not> captions_precede_watermark
        (video_stages (composeFilterGraph ''/tmp/job/captions.ass'' ''drawtext=text=brand'' ''10:10''
           image_watermark_job))
   \<and> video_stages (composeFilterGraph ''/tmp/job/captions.ass'' ''drawtext=text=brand'' ''10:10''
        silent_job) = [BackgroundFit, Captions]"
  by code_simp

text \<open>
  C2, amended: the fitted background always comes first. With a text watermark the
  captions come before the watermark, and the caption stage is left out when the
  timestamp list is empty. With an image watermark (no text watermark) and a timestamp
  list that is not empty, the watermark is overlaid before the captions are burnt in.
  With no watermark and a timestamp list that is not empty, the captions are the last
  stage.
\<close>

theorem compose_stage_order:
  assumes "truthy (watermarkText job) \<or> wordTimestamps job \<noteq> []"
  shows "video_stages (composeFilterGraph captionsPath drawtextFilter watermarkOverlayPos job) =
     (if truthy (watermarkText job)
      then (if wordTimestamps job \<noteq> [] then [BackgroundFit, Captions, Watermark]
            else [BackgroundFit, Watermark])
      else if truthy (watermarkUrl job) then [BackgroundFit, Watermark, Captions]
      else [BackgroundFit, Captions])"
  by (simp add: video_stages_def composeFilterGraph_def audioChains_def backgroundFit_def
      watermarkChains_def Let_def musicInputIndex_def int_to_string_def)

theorem compose_stage_order_witness:
  "truthy (watermarkText text_watermark_job)
   \<and> video_stages (composeFilterGraph ''/tmp/job/captions.ass'' ''drawtext=text=brand'' ''10:10''
        text_watermark_job) = [BackgroundFit, Captions, Watermark]"
proof -
  have t: "truthy (watermarkText text_watermark_job)"
    and w: "wordTimestamps text_watermark_job \<noteq> []"
    by (simp_all add: text_watermark_job_def truthy_def scenario_phrase_def)
  from t have h: "truthy (watermarkText text_watermark_job) \<or> wordTimestamps text_watermark_job \<noteq> []"
    by (rule disjI1)
  show ?thesis
    using compose_stage_order [OF h, of "''/tmp/job/captions.ass''" "''drawtext=text=brand''"
        "''10:10''"] t w
    by simp
qed

lemma text_watermark_filter_text:
  "filterComplex show_whole ''/tmp/job/captions.ass'' ''drawtext=text=brand''
     ''10:10'' (text_watermark_job\<lparr>musicUrl := None\<rparr>)
   = ''[0:v]scale=1080:1920:force_original_aspect_ratio=increase,crop=1080:1920,trim=duration=10[bg];[bg]ass=''
     @ [quote] @ ''/tmp/job/captions.ass'' @ [quote] @ ''[captioned];[captioned]drawtext=text=brand[final]''"
  by code_simp

subsection \<open>Cover scaling\<close>

lemma cover_scaled_size_covers:
  assumes "0 < sw" "0 < sh"
  shows "W \<le> fst (cover_scaled_size (sw, sh) W H) \<and> H \<le> snd (cover_scaled_size (sw, sh) W H)"
proof -
  have "sw * (W / sw) \<le> sw * max (W / sw) (H / sh)"
    using assms(1) by (intro mult_left_mono) simp_all
  moreover have "sh * (H / sh) \<le> sh * max (W / sw) (H / sh)"
    using assms(2) by (intro mult_left_mono) simp_all
  ultimately show ?thesis
    using assms by (simp add: cover_scaled_size_def Let_def)
qed

text \<open>
  C3. The background chain asks the engine for a cover scale to the target size and
  then for a crop to the same target size, so for every source size with positive
  width and height, and every target, the crop is no wider and no higher than the
  scaled frame, and the chain ends with a frame of exactly the target size. What the
  engine's cover scale yields is taken from the spec (\<open>cover_scaled_size\<close>).
\<close>

theorem background_fit_crop_within_scaled:
  assumes "0 < sw" and "0 < sh"
  shows "filters (backgroundFit job) =
           [ScaleCover (targetWidth job) (targetHeight job),
            Crop (targetWidth job) (targetHeight job), Trim (duration job)]
       \<and> targetWidth job \<le> fst (cover_scaled_size (sw, sh) (targetWidth job) (targetHeight job))
       \<and> targetHeight job \<le> snd (cover_scaled_size (sw, sh) (targetWidth job) (targetHeight job))
       \<and> frame_size_through (filters (backgroundFit job)) (sw, sh)
           = Some (targetWidth job, targetHeight job)"
  using cover_scaled_size_covers [OF assms, of "targetWidth job" "targetHeight job"]
  by (simp add: backgroundFit_def)

theorem background_fit_crop_within_scaled_witness:
  "(0::rat) < 606 \<and> (0::rat) < 1080
   \<and> cover_scaled_size (606, 1080) 1080 1920 = (1080, 194400 / 101)
   \<and> targetWidth image_watermark_job
        \<le> fst (cover_scaled_size (606, 1080) (targetWidth image_watermark_job)
                 (targetHeight image_watermark_job))
   \<and> targetHeight image_watermark_job
        \<le> snd (cover_scaled_size (606, 1080) (targetWidth image_watermark_job)
                 (targetHeight image_watermark_job))
   \<and> frame_size_through (filters (backgroundFit image_watermark_job)) (606, 1080)
       = Some (1080, 1920)"
proof -
  have w: "(0::rat) < 606" and h: "(0::rat) < 1080" by simp_all
  have e: "cover_scaled_size (606, 1080) 1080 1920 = (1080, 194400 / 101)"
    by code_simp
  have t: "targetWidth image_watermark_job = 1080" "targetHeight image_watermark_job = 1920"
    by (simp_all add: image_watermark_job_def)
  show ?thesis
    using background_fit_crop_within_scaled [OF w h, of image_watermark_job] w h e
    by (simp add: t)
qed

section \<open>The crossfade chain\<close>

lemma xfadeLoop_length: "length (xfadeLoop ds t n is c l) = length is"
  by (induction "is" arbitrary: c l) (simp_all add: Let_def)

lemma xfadeLoop_offset:
  "k < length is \<Longrightarrow>
     xf_offset (xfadeLoop ds t n is c l ! k) = c + (\<Sum>i \<leftarrow> take (Suc k) is. ds ! (i - 1) - t)"
proof (induction "is" arbitrary: c l k)
  case Nil
  then show ?case by simp
next
  case (Cons i "is")
  show ?case
  proof (cases k)
    case 0
    then show ?thesis by (simp add: Let_def)
  next
    case (Suc k')
    with Cons.prems have "k' < length is" by simp
    from Cons.IH [OF this] Suc show ?thesis by (simp add: Let_def algebra_simps)
  qed
qed

lemma sum_list_shifted:
  assumes "Suc k < n"
  shows "(\<Sum>i \<leftarrow> take (Suc k) [1..<n]. f (i - 1)) = (\<Sum>j < Suc k. f j)"
proof -
  have "take (Suc k) [1..<n] = [1..<1 + Suc k]"
    using assms by (intro take_upt) simp
  also have "\<dots> = map Suc [0..<Suc k]"
    by (simp only: map_Suc_upt One_nat_def plus_nat.simps)
  finally have "(\<Sum>i \<leftarrow> take (Suc k) [1..<n]. f (i - 1)) = (\<Sum>j \<leftarrow> [0..<Suc k]. f j)"
    by (simp only: map_map comp_def diff_Suc_1)
  also have "\<dots> = sum f (set [0..<Suc k])"
    by (rule interv_sum_list_conv_sum_set_nat)
  finally show ?thesis by (simp only: atLeast_upt)
qed

lemma xfadeChain_offset:
  assumes "1 \<le> i" "i < length ds"
  shows "xf_offset (xfadeChain ds t ! (i - 1)) = (\<Sum>j < i. ds ! j - t)"
proof -
  obtain k where k: "i = Suc k" using assms(1) by (cases i) simp_all
  have "k < length [1..<length ds]" using assms(2) k by simp
  from xfadeLoop_offset [OF this, of ds t "length ds" 0 "''v0''"]
  have "xf_offset (xfadeChain ds t ! k) = (\<Sum>i \<leftarrow> take (Suc k) [1..<length ds]. ds ! (i - 1) - t)"
    by (simp add: xfadeChain_def)
  also have "\<dots> = (\<Sum>j < Suc k. ds ! j - t)"
    using assms(2) k by (intro sum_list_shifted) simp
  finally show ?thesis by (simp add: k)
qed

lemma sum_minus_const:
  fixes ds :: "rat list"
  shows "(\<Sum>j < n. ds ! j - t) = (\<Sum>j < n. ds ! j) - of_nat n * t"
  by (simp add: sum_subtractf)

lemma xfadeChain_end:
  assumes "2 \<le> length ds"
  shows "xf_offset (last (xfadeChain ds t)) + last ds = sum_list ds - of_nat (length ds - 1) * t"
proof -
  define n where "n = length ds - 1"
  have n: "length ds = Suc n" "1 \<le> n" using assms by (simp_all add: n_def)
  have len: "length (xfadeChain ds t) = n"
    by (simp add: xfadeChain_def xfadeLoop_length n)
  moreover from len n(2) have "xfadeChain ds t \<noteq> []" by auto
  ultimately have "last (xfadeChain ds t) = xfadeChain ds t ! (n - 1)"
    by (simp add: last_conv_nth)
  hence "xf_offset (last (xfadeChain ds t)) = (\<Sum>j < n. ds ! j) - of_nat n * t"
    using xfadeChain_offset [of n ds t] n by (simp add: sum_minus_const)
  moreover have "ds \<noteq> []" using n(1) by auto
  hence "last ds = ds ! n"
    using n(1) by (simp add: last_conv_nth)
  moreover have "sum_list ds = (\<Sum>j < Suc n. ds ! j)"
    using n(1) by (simp add: sum_list_sum_nth atLeast0LessThan)
  ultimately show ?thesis by (simp add: n_def)
qed


lemma effectiveDuration_untrimmed: "effectiveDuration (Some p) None = p"
  by (simp add: effectiveDuration_def or_default_num_def)

lemma effectiveDuration_trimmed:
  "p \<noteq> 0 \<Longrightarrow> s \<noteq> 0 \<Longrightarrow> e \<noteq> 0 \<Longrightarrow>
     effectiveDuration (Some p) (Some \<lparr>trim_start = Some s, trim_end = Some e\<rparr>) = min e p - s"
  by (simp add: effectiveDuration_def or_default_num_def)

text \<open>
  C4. For a crossfade merge the effective duration of a clip is the smaller of its
  trim end and its probed duration, minus its trim start (the probed duration alone
  when the clip is not trimmed). With effective durations \<open>d\<close> and transition duration
  \<open>t\<close>, there is one transition per clip after the first; the fade-in offset of clip
  \<open>i\<close> (counted from 0) is the sum of \<open>d j - t\<close> over the clips \<open>j < i\<close>; and the end
  of the chain, the last offset plus the last effective duration, is the sum of all
  effective durations minus \<open>(n - 1) * t\<close>. The duration the job reports is probed
  from the engine's output file.
\<close>

theorem crossfade_offsets_and_duration:
  fixes clips :: "(rat option \<times> TrimBounds option) list" and t :: rat
  defines "d \<equiv> probeDurations clips"
  shows "length d = length clips
       \<and> (\<forall>k < length clips. d ! k = effectiveDuration (fst (clips ! k)) (snd (clips ! k)))
       \<and> (\<forall>p s e. p \<noteq> 0 \<and> s \<noteq> 0 \<and> e \<noteq> 0 \<longrightarrow>
             effectiveDuration (Some p) (Some \<lparr>trim_start = Some s, trim_end = Some e\<rparr>)
               = min e p - s)
       \<and> length (xfadeChain d t) = length clips - 1
       \<and> (\<forall>i. 1 \<le> i \<and> i < length clips \<longrightarrow>
             xf_offset (xfadeChain d t ! (i - 1)) = (\<Sum>j < i. d ! j - t))
       \<and> (2 \<le> length clips \<longrightarrow>
             xf_offset (last (xfadeChain d t)) + last d
               = sum_list d - of_nat (length clips - 1) * t)"
proof -
  have len: "length d = length clips"
    by (simp add: d_def probeDurations_def)
  have nth: "d ! k = effectiveDuration (fst (clips ! k)) (snd (clips ! k))"
    if "k < length clips" for k
    using that by (simp add: d_def probeDurations_def case_prod_beta)
  have chain: "length (xfadeChain d t) = length clips - 1"
    by (simp add: xfadeChain_def xfadeLoop_length len)
  show ?thesis
    using len nth chain xfadeChain_offset [of _ d t] xfadeChain_end [of d t]
      effectiveDuration_trimmed
    by (simp add: len)
qed

lemma three_clips_chain:
  "probeDurations three_clips = [10, 8, 12]
   \<and> map xf_offset (xfadeChain (probeDurations three_clips) 1) = [9, 16]
   \<and> map (render_xfade show_whole) (xfadeChain (probeDurations three_clips) 1)
       = [''[v0][v1]xfade=transition=fade:duration=1:offset=9.000[xv1];'',
          ''[xv1][v2]xfade=transition=fade:duration=1:offset=16.000[vout];'']"
  by code_simp

theorem crossfade_offsets_and_duration_witness:
  "probeDurations three_clips = [10, 8, 12]
   \<and> map xf_offset (xfadeChain (probeDurations three_clips) 1) = [9, 16]
   \<and> xf_offset (last (xfadeChain (probeDurations three_clips) 1))
        + last (probeDurations three_clips) = 28
   \<and> sum_list (probeDurations three_clips) - of_nat (length three_clips - 1) * 1 = 28"
proof -
  have n: "length three_clips = 3"
    by (simp add: three_clips_def)
  have d: "probeDurations three_clips = [10, 8, 12]"
    and offsets: "map xf_offset (xfadeChain (probeDurations three_clips) 1) = [9, 16]"
    using three_clips_chain by blast+
  have total: "sum_list (probeDurations three_clips) - of_nat (length three_clips - 1) * 1 = 28"
    by (simp add: d n)
  have "xf_offset (last (xfadeChain (probeDurations three_clips) 1))
          + last (probeDurations three_clips)
        = sum_list (probeDurations three_clips) - of_nat (length three_clips - 1) * 1"
    using crossfade_offsets_and_duration [of three_clips 1] n by simp
  with total have "xf_offset (last (xfadeChain (probeDurations three_clips) 1))
          + last (probeDurations three_clips) = 28"
    by (simp only:)
  with d offsets total show ?thesis by blast
qed

section \<open>The overlay size\<close>





section \<open>The outcome of a composition job\<close>

text \<open>
  C9, as stated: whatever the outcome, the job's directory is deleted, on the success
  path as on the failure path. Outside S3 mode a job that succeeds returns the path of
  the output file inside its directory and leaves the directory in place; no removal
  is asked for.
\<close>

theorem stateless_success_keeps_workspace:
  "success (fst (processVideoCompose ''/tmp/job/output.mp4'' (all_calls_return Stateless) initial_world))
   \<and> workspace_exists (snd (processVideoCompose ''/tmp/job/output.mp4'' (all_calls_return Stateless) initial_world))
   \<and> rm_calls (snd (processVideoCompose ''/tmp/job/output.mp4'' (all_calls_return Stateless) initial_world)) = 0"
  by code_simp

lemma tryBlock_Inr:
  "tryBlock f env w = (Inr r, w') \<Longrightarrow>
     \<not> some_stage_fails env \<and> success r \<and> error r = None
     \<and> (storage_mode env = S3 \<longrightarrow> \<not> workspace_exists w' \<and> rm_calls w' = rm_calls w + 1
            \<and> outputUrl r \<noteq> None)"
  by (auto simp: tryBlock_def some_stage_fails_def Let_def split: option.splits sum.splits if_splits)

text \<open>
  C9, amended: if a stage fails (directory, subtitle file, background, downloads,
  engine, upload), the result reports failure. A result that reports failure has an
  error message and neither an output URL nor an output path, and the removal of the
  job's directory has been asked for; the directory is then gone unless that removal
  itself failed, which the job ignores. In S3 mode the removal is asked for on every
  path, and a directory that is still there means that the job failed and the removal
  failed too.
\<close>

theorem compose_job_outcome:
  fixes env :: Outcomes and outputFile :: string
  defines "r \<equiv> fst (processVideoCompose outputFile env initial_world)"
    and "w \<equiv> snd (processVideoCompose outputFile env initial_world)"
  shows "(some_stage_fails env \<longrightarrow> \<not> success r)
       \<and> (\<not> success r \<longrightarrow> outputUrl r = None \<and> outputPath r = None
             \<and> (\<exists>m. error r = Some (''Failed to compose video: '' @ m))
             \<and> 1 \<le> rm_calls w \<and> (workspace_exists w \<longrightarrow> cleanup_rm_fails env))
       \<and> (storage_mode env = S3 \<longrightarrow> 1 \<le> rm_calls w
             \<and> (workspace_exists w \<longrightarrow> \<not> success r \<and> cleanup_rm_fails env))"
proof (cases "tryBlock outputFile env initial_world")
  case (Pair res w')
  show ?thesis
  proof (cases res)
    case (Inl e)
    with Pair have run: "processVideoCompose outputFile env initial_world = catchBlock env e w'"
      by (simp add: processVideoCompose_def)
    show ?thesis
      unfolding r_def w_def run by (simp add: catchBlock_def)
  next
    case (Inr res')
    with Pair have run: "processVideoCompose outputFile env initial_world = (res', w')"
      by (simp add: processVideoCompose_def)
    from tryBlock_Inr [of outputFile env initial_world res' w'] Pair Inr
    show ?thesis
      unfolding r_def w_def run by (simp add: initial_world_def)
  qed
qed

lemma engine_fails_run:
  "processVideoCompose ''/tmp/job/output.mp4'' engine_fails initial_world
     = (\<lparr>success = False, outputUrl = None, outputPath = None,
         error = Some ''Failed to compose video: Command failed: ffmpeg''\<rparr>,
        \<lparr>workspace_exists = False, rm_calls = 1\<rparr>)"
  by code_simp

theorem compose_job_outcome_witness:
  "some_stage_fails engine_fails
   \<and> \<not> success (fst (processVideoCompose ''/tmp/job/output.mp4'' engine_fails initial_world))
   \<and> outputUrl (fst (processVideoCompose ''/tmp/job/output.mp4'' engine_fails initial_world)) = None
   \<and> 1 \<le> rm_calls (snd (processVideoCompose ''/tmp/job/output.mp4'' engine_fails initial_world))
   \<and> \<not> workspace_exists (snd (processVideoCompose ''/tmp/job/output.mp4'' engine_fails initial_world))"
proof -
  have f: "some_stage_fails engine_fails"
    by (simp add: some_stage_fails_def engine_fails_def all_calls_return_def)
  show ?thesis
    using compose_job_outcome [of engine_fails "''/tmp/job/output.mp4''"] f
    by (simp add: engine_fails_run)
qed

end
